theory Spec2Isabelle
  imports Main "HOL-Library.AList"
begin

section \<open>Go strings, as the indexing and parser packages use them\<close>

text \<open>
  A Go string is a sequence of bytes; it is modelled as \<^typ>\<open>string\<close>, one
  \<^typ>\<open>char\<close> for each byte. The helpers below are the functions of package
  \<^verbatim>\<open>strings\<close> that the sources call, at the arguments they are called with.
\<close>

definition HasPrefix :: "string \<Rightarrow> string \<Rightarrow> bool" where
  "HasPrefix s p = (take (length p) s = p)"

definition HasSuffix :: "string \<Rightarrow> string \<Rightarrow> bool" where
  "HasSuffix s p = (length p \<le> length s \<and> drop (length s - length p) s = p)"

definition TrimPrefix :: "string \<Rightarrow> string \<Rightarrow> string" where
  "TrimPrefix s p = (if HasPrefix s p then drop (length p) s else s)"

text \<open>
  \<^verbatim>\<open>strings.TrimLeft\<close>, \<^verbatim>\<open>TrimRight\<close> and \<^verbatim>\<open>Trim\<close> remove
  every leading (trailing) byte that occurs in the cutset. The sources pass the
  one-byte cutset \<^verbatim>\<open>"/"\<close>, for which Go works byte by byte.
\<close>

definition TrimLeft :: "string \<Rightarrow> string \<Rightarrow> string" where
  "TrimLeft s cutset = dropWhile (\<lambda>c. c \<in> set cutset) s"

definition TrimRight :: "string \<Rightarrow> string \<Rightarrow> string" where
  "TrimRight s cutset = rev (dropWhile (\<lambda>c. c \<in> set cutset) (rev s))"

definition Trim :: "string \<Rightarrow> string \<Rightarrow> string" where
  "Trim s cutset = TrimRight (TrimLeft s cutset) cutset"

text \<open>
  \<^verbatim>\<open>strings.Split(s, sep)\<close> for a separator of one byte (the sources split on
  \<^verbatim>\<open>"/"\<close> and \<^verbatim>\<open>"|"\<close>): the pieces between the separators, so that a
  string with \<open>n\<close> separators has \<open>n + 1\<close> pieces and the empty string has the one
  piece \<^verbatim>\<open>""\<close>.
\<close>

fun Split :: "string \<Rightarrow> char \<Rightarrow> string list" where
  "Split [] sep = [[]]"
| "Split (c # cs) sep =
     (if c = sep then [] # Split cs sep
      else (case Split cs sep of
              [] \<Rightarrow> [[c]]
            | piece # pieces \<Rightarrow> (c # piece) # pieces))"

section \<open>Template matching (\<^verbatim>\<open>matchTemplate\<close>)\<close>

text \<open>
  The test of the loop body: \<^verbatim>\<open>strings.HasPrefix(ts[i], "{") &&
  strings.HasSuffix(ts[i], "}")\<close>.
\<close>

definition braceDelimited :: "string \<Rightarrow> bool" where
  "braceDelimited seg = (HasPrefix seg ''{'' \<and> HasSuffix seg ''}'')"

text \<open>
  The loop \<^verbatim>\<open>for i := range ts\<close> of \<^verbatim>\<open>matchTemplate\<close>, entered only
  when both slices have the same length: it walks the two slices in step.
\<close>

fun matchSegments :: "string list \<Rightarrow> string list \<Rightarrow> bool" where
  "matchSegments (t # ts) (p # ps) =
     (if braceDelimited t then matchSegments ts ps
      else if t \<noteq> p then False
      else matchSegments ts ps)"
| "matchSegments _ _ = True"

definition templateSegments :: "string \<Rightarrow> string list" where
  "templateSegments s = Split (Trim s ''/'') CHR ''/''"

definition matchTemplate :: "string \<Rightarrow> string \<Rightarrow> bool" where
  "matchTemplate tmpl path =
     (let ts = templateSegments tmpl;
          ps = templateSegments path
      in if length ts \<noteq> length ps then False else matchSegments ts ps)"

section \<open>Data model of package \<^verbatim>\<open>indexing\<close>\<close>

text \<open>
  A decoded JSON document, the \<^verbatim>\<open>interface{}\<close> tree that
  \<^verbatim>\<open>encoding/json\<close> builds: an object is a Go map, kept here as the list of
  its entries and read with \<^const>\<open>map_of\<close>. The sources never look inside a number,
  which is kept as its literal.
\<close>

datatype json =
    JNull
  | JBool bool
  | JNumber string
  | JString string
  | JArray "json list"
  | JObject "(string \<times> json) list"

record SpecConfig =
  DisplayName :: string
  Name :: string
  cfgFile :: string
  cfgURL :: string

record OpEntry =
  Method :: string
  Template :: string
  OperationID :: string
  Description :: string
  Tags :: "string list"

record SpecIndex =
  SpecName :: string
  File :: string
  Host :: string
  BasePath :: string
  ContentHash :: string

type_synonym Registry = "string \<rightharpoonup> SpecIndex"

record SearchResult =
  resSpecName :: string
  resOperationID :: string
  resMethod :: string
  resTemplate :: string
  resDescription :: string
  resTags :: "string list"

text \<open>
  The typed document of \<^verbatim>\<open>kin-openapi\<close>, as far as \<^verbatim>\<open>extractOpEntries\<close>
  and \<^verbatim>\<open>extractOperations\<close> read it: a nil operation pointer is \<^const>\<open>None\<close>.
\<close>

record Operation =
  opSummary :: string
  opDescription :: string
  opOperationID :: string
  opTags :: "string list"

record PathItem =
  Get :: "Operation option"
  Post :: "Operation option"
  Put :: "Operation option"
  Delete :: "Operation option"
  Options :: "Operation option"
  Head :: "Operation option"
  Patch :: "Operation option"
  Trace :: "Operation option"
  Connect :: "Operation option"

type_synonym T = "(string \<times> PathItem) list"

text \<open>
  \<^verbatim>\<open>net/url\<close>: the fields of a parsed \<^verbatim>\<open>*url.URL\<close> that the sources read.
  \<^verbatim>\<open>u.Host\<close> is the authority without user information, that is
  \<^verbatim>\<open>host\<close> or \<^verbatim>\<open>host:port\<close>.
\<close>

record URL =
  urlHost :: string
  urlPath :: string
  urlRawQuery :: string

text \<open>
  \<^verbatim>\<open>(*URL).Hostname\<close>, from the library's \<^verbatim>\<open>splitHostPort\<close>: the host
  without a syntactically valid port (a colon followed by digits only, possibly none)
  and without the square brackets of an IPv6 literal.
\<close>

definition isDigit :: "char \<Rightarrow> bool" where
  "isDigit b = (b \<in> set ''0123456789'')"

definition validOptionalPort :: "string \<Rightarrow> bool" where
  "validOptionalPort port =
     (case port of [] \<Rightarrow> True | c # ds \<Rightarrow> c = CHR '':'' \<and> list_all isDigit ds)"

fun LastIndexByte :: "string \<Rightarrow> char \<Rightarrow> nat option" where
  "LastIndexByte [] c = None"
| "LastIndexByte (x # xs) c =
     (case LastIndexByte xs c of
        Some i \<Rightarrow> Some (Suc i)
      | None \<Rightarrow> if x = c then Some 0 else None)"

definition splitHostPort :: "string \<Rightarrow> string \<times> string" where
  "splitHostPort hostPort =
     (let (host, port) =
            (case LastIndexByte hostPort CHR '':'' of
               Some colon \<Rightarrow>
                 if validOptionalPort (drop colon hostPort)
                 then (take colon hostPort, drop (Suc colon) hostPort)
                 else (hostPort, [])
             | None \<Rightarrow> (hostPort, []))
      in if HasPrefix host ''['' \<and> HasSuffix host '']''
         then (butlast (tl host), port) else (host, port))"

definition Hostname :: "URL \<Rightarrow> string" where
  "Hostname u = fst (splitHostPort (urlHost u))"

text \<open>
  What \<^verbatim>\<open>json.Unmarshal\<close> leaves in a nil
  \<^verbatim>\<open>map[string]interface{}\<close>: a fresh map for a JSON object, the nil map for
  the literal \<^verbatim>\<open>null\<close> (without an error), and the nil map with an error for
  everything else. Reading the nil map finds no key; writing to it panics.
\<close>

datatype unmarshalled = DecodeError | DecodedNil | Decoded "(string \<times> json) list"

text \<open>
  The functions of the Go standard library and of \<^verbatim>\<open>kin-openapi\<close> that the
  sources call and whose tables and grammars are not reproduced here. Every definition
  below takes them as the parameter \<open>L\<close>, and every general theorem holds for all of
  them. A failed call is \<^const>\<open>None\<close>. \<open>openapi3_LoadFromData\<close> stands for
  \<^verbatim>\<open>json.Marshal\<close> of the document followed by the loader's
  \<^verbatim>\<open>LoadFromData\<close>.
\<close>

record stdlib =
  url_Parse :: "string \<Rightarrow> URL option"
  strings_ToUpper :: "string \<Rightarrow> string"
  strings_ToLower :: "string \<Rightarrow> string"
  filepath_Abs :: "string \<Rightarrow> string option"
  sha256_hex :: "string \<Rightarrow> string"
  json_UnmarshalConfigs :: "string \<Rightarrow> SpecConfig list option"
  json_UnmarshalObject :: "string \<Rightarrow> unmarshalled"
  gob_Encode :: "(string \<times> string) list \<Rightarrow> string"
  openapi3_LoadFromData :: "(string \<times> json) list \<Rightarrow> T option"
  url_Query :: "URL \<Rightarrow> (string \<rightharpoonup> string list)"
  textproto_CanonicalMIMEHeaderKey :: "string \<Rightarrow> string"
  filepath_Join :: "string \<Rightarrow> string \<Rightarrow> string"

text \<open>
  The errors that the two packages return, by kind, and the run-time panics of Go that
  the sources can reach. A panic is not returned: it unwinds the goroutine and ends the
  process. The model hands it up like an error, as \<open>RuntimePanic\<close>.
\<close>

datatype panic = IndexOutOfRange | NilPointerDereference | AssignmentToNilMap

datatype error =
    ErrNoServers
  | InvalidServers0
  | ServersUrlNotString
  | UrlParseError string
  | ReadingConfig string
  | ResolvingFile string
  | ReadingSpec string
  | ParsingSpec string
  | InSpec string error
  | InvalidURL string
  | NoSpecForHost string
  | SearchError error
  | NoOperationFound string string string
  | EngineError
  | MkdirError string
  | CreateIndexError string
  | ReadSpecFileError string
  | IndexDocError string
  | WriteHashError string
  | OpenIndexError string
  | ReadError string
  | MissingMethodOrURI
  | RuntimePanic panic

section \<open>The search engine, as the sources call it\<close>

text \<open>
  The queries that \<^verbatim>\<open>SearchBleve\<close> builds. A term query carries its value and
  its field.
\<close>

datatype Query =
    QueryStringQuery string
  | TermQuery string string
  | DisjunctionQuery "Query list"
  | ConjunctionQuery "Query list"

text \<open>
  A hit of the engine (\<^verbatim>\<open>search.DocumentMatch\<close>): the id of the document and
  the stored fields that were asked for.
\<close>

record DocumentMatch =
  hitID :: string
  hitFields :: "string \<rightharpoonup> json"

text \<open>
  An open \<^verbatim>\<open>bleve.Index\<close> (a shard or the alias) is what its
  \<^verbatim>\<open>Search\<close> method answers to a request (query, size, from and the names of the
  stored fields wanted): the hits in rank order with the total, or a failure.
\<close>

type_synonym Index = "Query \<Rightarrow> int \<Rightarrow> int \<Rightarrow> string list \<Rightarrow> (DocumentMatch list \<times> nat) option"

definition disjunction :: "string \<Rightarrow> string list \<Rightarrow> Query" where
  "disjunction field vals = DisjunctionQuery (map (\<lambda>v. TermQuery v field) vals)"

text \<open>
  \<^verbatim>\<open>ifaceSliceToString\<close>; the argument is \<^const>\<open>None\<close> for a field that the
  hit does not have. A nil slice and an empty slice are both \<^term>\<open>[]\<close>.
\<close>

fun ifaceSliceToString :: "json option \<Rightarrow> string list" where
  "ifaceSliceToString (Some (JArray v)) =
     concat (map (\<lambda>elem. case elem of JString s \<Rightarrow> [s] | _ \<Rightarrow> []) v)"
| "ifaceSliceToString (Some (JString v)) = [v]"
| "ifaceSliceToString _ = []"

text \<open>The body of the loop over \<^verbatim>\<open>res.Hits\<close> in \<^verbatim>\<open>SearchBleve\<close>.\<close>

definition hitResult :: "DocumentMatch \<Rightarrow> SearchResult" where
  "hitResult h =
     (let tags = ifaceSliceToString (hitFields h ''Tags'');
          parts = Split (hitID h) CHR ''|''
      in if length parts = 4
         then \<lparr>resSpecName = parts ! 0, resOperationID = parts ! 3, resMethod = parts ! 1,
               resTemplate = parts ! 2, resDescription = [], resTags = tags\<rparr>
         else \<lparr>resSpecName = [], resOperationID = [], resMethod = [],
               resTemplate = [], resDescription = [], resTags = tags\<rparr>)"

definition SearchBleve ::
  "Index \<Rightarrow> string list \<Rightarrow> string list \<Rightarrow> string \<Rightarrow> int \<Rightarrow> int \<Rightarrow>
     error + (SearchResult list \<times> nat)" where
  "SearchBleve idx specNames tagFilters queryStr limit offset =
     (let clauses = [QueryStringQuery queryStr]
            @ (if length specNames > 0 then [disjunction ''SpecName'' specNames] else [])
            @ (if length tagFilters > 0 then [disjunction ''Tags'' tagFilters] else [])
      in case idx (ConjunctionQuery clauses) limit offset
                [''SpecName'', ''OperationID'', ''Method'', ''Template'', ''Description'', ''Tags'']
         of None \<Rightarrow> Inl EngineError
          | Some (hits, totalHits) \<Rightarrow> Inr (map hitResult hits, totalHits))"

section \<open>The operation resolver\<close>

text \<open>
  The loop of \<^verbatim>\<open>extractPathParams\<close>, run only when both slices have the same
  length. For a brace-delimited segment the name is \<^verbatim>\<open>ts[1 : len(ts)-1]\<close>; such a
  segment has at least two bytes, so the slice expression is in range.
\<close>

fun collectParams :: "string list \<Rightarrow> string list \<Rightarrow> (string \<rightharpoonup> string) \<Rightarrow> (string \<rightharpoonup> string)" where
  "collectParams (ts # tSeg) (p # pSeg) params =
     collectParams tSeg pSeg
       (if braceDelimited ts then params(butlast (tl ts) \<mapsto> p) else params)"
| "collectParams _ _ params = params"

definition extractPathParams :: "string \<Rightarrow> string \<Rightarrow> string \<Rightarrow> (string \<rightharpoonup> string)" where
  "extractPathParams basePath tmpl fullPath =
     (let clean = TrimPrefix (TrimPrefix fullPath basePath) ''/'';
          tSeg = Split (Trim tmpl ''/'') CHR ''/'';
          pSeg = Split (Trim clean ''/'') CHR ''/''
      in if length tSeg \<noteq> length pSeg then Map.empty
         else collectParams tSeg pSeg Map.empty)"

text \<open>
  The loop over the search results in \<^verbatim>\<open>FindOperation\<close>: the first candidate
  of the resolved spec and the wanted method whose template matches the full or the
  relative path is returned with its path parameters; \<^const>\<open>None\<close> when the loop
  runs out.
\<close>

fun firstCandidate ::
  "SearchResult list \<Rightarrow> SpecIndex \<Rightarrow> string \<Rightarrow> string \<Rightarrow> string \<Rightarrow>
     (string \<times> string \<times> (string \<rightharpoonup> string)) option" where
  "firstCandidate [] meta wantMethod full rel = None"
| "firstCandidate (r # results) meta wantMethod full rel =
     (if resSpecName r \<noteq> SpecName meta then firstCandidate results meta wantMethod full rel
      else if resMethod r \<noteq> wantMethod then firstCandidate results meta wantMethod full rel
      else if matchTemplate (resTemplate r) full \<or> matchTemplate (resTemplate r) rel
      then Some (resSpecName r, resOperationID r,
                 extractPathParams (BasePath meta) (resTemplate r) full)
      else firstCandidate results meta wantMethod full rel)"

definition FindOperation ::
  "stdlib \<Rightarrow> Index \<Rightarrow> Registry \<Rightarrow> string \<Rightarrow> string \<Rightarrow>
     error + (string \<times> string \<times> (string \<rightharpoonup> string))" where
  "FindOperation L idx reg method rawURL =
     (case url_Parse L rawURL of
        None \<Rightarrow> Inl (InvalidURL rawURL)
      | Some u \<Rightarrow>
          (let host = Hostname u in
           case reg host of
             None \<Rightarrow> Inl (NoSpecForHost host)
           | Some meta \<Rightarrow>
               (let base = TrimRight (BasePath meta) ''/'';
                    full = urlPath u;
                    rel0 = TrimPrefix full base;
                    rel = (if \<not> HasPrefix rel0 ''/'' then ''/'' @ rel0 else rel0);
                    wantMethod = strings_ToUpper L method
                in case SearchBleve idx [] [] rel 100 0 of
                     Inl err \<Rightarrow> Inl (SearchError err)
                   | Inr (results, totalHits) \<Rightarrow>
                       (case firstCandidate results meta wantMethod full rel of
                          Some found \<Rightarrow> Inr found
                        | None \<Rightarrow> Inl (NoOperationFound method rel (SpecName meta))))))"

section \<open>The spec loader\<close>

definition firstServerInfo :: "stdlib \<Rightarrow> (string \<times> json) list \<Rightarrow> error + (string \<times> string)" where
  "firstServerInfo L raw =
     (case map_of raw ''servers'' of
        Some (JArray sv) \<Rightarrow>
          (case sv of
             [] \<Rightarrow> Inl ErrNoServers
           | sv0 # _ \<Rightarrow>
               (case sv0 of
                  JObject m \<Rightarrow>
                    (case map_of m ''url'' of
                       Some (JString urlStr) \<Rightarrow>
                         (case url_Parse L urlStr of
                            None \<Rightarrow> Inl (UrlParseError urlStr)
                          | Some u \<Rightarrow>
                              (let host = urlHost u;
                                   basePath = TrimRight (urlPath u) ''/'';
                                   basePath = (if basePath = ''/'' then [] else basePath)
                               in Inr (host, basePath)))
                     | _ \<Rightarrow> Inl ServersUrlNotString)
                | _ \<Rightarrow> Inl InvalidServers0))
      | _ \<Rightarrow> Inl ErrNoServers)"

text \<open>
  The part of the machine that the package reads and writes: the readable regular files
  with their contents, the shard directories of the engine with the documents indexed in
  them (id and fields), the calls of the operating system and of the engine that fail
  on a path although the model could serve them, and the rebuild notices written with
  \<^verbatim>\<open>log.Printf\<close>.
\<close>

datatype syscall = MkdirAll | Stat | Create | NewUsing | IndexDoc | WriteFile | OpenIndex

record world =
  files :: "string \<rightharpoonup> string"
  shards :: "string \<rightharpoonup> (string \<times> (string \<times> json) list) list"
  fails :: "syscall \<Rightarrow> string \<Rightarrow> bool"
  rebuilds :: "string list"

text \<open>
  The body of the loop of \<^verbatim>\<open>LoadConfigAndIndex\<close>: what one configured spec
  contributes, or the error that ends the load.
\<close>

definition loadSpec :: "stdlib \<Rightarrow> world \<Rightarrow> SpecConfig \<Rightarrow> error + SpecIndex" where
  "loadSpec L w cfg =
     (case filepath_Abs L (cfgFile cfg) of
        None \<Rightarrow> Inl (ResolvingFile (cfgFile cfg))
      | Some absPath \<Rightarrow>
          (case files w absPath of
             None \<Rightarrow> Inl (ReadingSpec (Name cfg))
           | Some rawBytes \<Rightarrow>
               (let hash = sha256_hex L rawBytes
                in case json_UnmarshalObject L rawBytes of
                     DecodeError \<Rightarrow> Inl (ParsingSpec (Name cfg))
                   | decoded \<Rightarrow>
                       (case firstServerInfo L
                               (case decoded of Decoded raw \<Rightarrow> raw | _ \<Rightarrow> []) of
                          Inl err \<Rightarrow> Inl (InSpec (Name cfg) err)
                        | Inr (host, base) \<Rightarrow>
                            Inr \<lparr>SpecName = Name cfg, File = absPath, Host = host,
                                 BasePath = base, ContentHash = hash\<rparr>))))"

text \<open>
  The loop itself: \<^verbatim>\<open>registry[host] = &SpecIndex{...}\<close> for each spec in
  configuration order, and \<open>updated\<close>, the map from spec name to hash that is written
  to the cache file afterwards. An error returns at once and drops both maps.
\<close>

fun loadSpecs ::
  "stdlib \<Rightarrow> world \<Rightarrow> SpecConfig list \<Rightarrow> Registry \<Rightarrow> (string \<times> string) list \<Rightarrow>
     error + (Registry \<times> (string \<times> string) list)" where
  "loadSpecs L w [] registry updated = Inr (registry, updated)"
| "loadSpecs L w (cfg # cfgs) registry updated =
     (case loadSpec L w cfg of
        Inl err \<Rightarrow> Inl err
      | Inr si \<Rightarrow>
          loadSpecs L w cfgs (registry(Host si \<mapsto> si))
            (AList.update (Name cfg) (ContentHash si) updated))"

text \<open>
  \<^verbatim>\<open>LoadConfigAndIndex\<close>. The old cache file is opened and decoded into a map
  that is never read again, which leaves no trace; the new one is written when
  \<^verbatim>\<open>os.Create\<close> succeeds and is skipped silently otherwise.
\<close>

definition LoadConfigAndIndex ::
  "stdlib \<Rightarrow> world \<Rightarrow> string \<Rightarrow> string \<Rightarrow> (error + Registry) \<times> world" where
  "LoadConfigAndIndex L w configPath cachePath =
     (case files w configPath of
        None \<Rightarrow> (Inl (ReadingConfig configPath), w)
      | Some data \<Rightarrow>
          (case json_UnmarshalConfigs L data of
             None \<Rightarrow> (Inl (ReadingConfig configPath), w)
           | Some cfgs \<Rightarrow>
               (case loadSpecs L w cfgs Map.empty [] of
                  Inl err \<Rightarrow> (Inl err, w)
                | Inr (registry, updated) \<Rightarrow>
                    (Inr registry,
                     if fails w Create cachePath then w
                     else w\<lparr>files := (files w)(cachePath \<mapsto> gob_Encode L updated)\<rparr>))))"

section \<open>Sanitizing a spec\<close>

definition validVerbs :: "string list" where
  "validVerbs = [''get'', ''put'', ''post'', ''delete'', ''options'', ''head'', ''patch'',
                 ''trace'', ''connect'']"

text \<open>
  A Go map is mutated in place. In the model a map is the list of its entries, a write
  \<^verbatim>\<open>m[k] = v\<close> is \<^const>\<open>AList.update\<close>, \<^verbatim>\<open>delete(m, k)\<close> is
  \<^const>\<open>AList.delete\<close>, and the changed map is put back where it hangs in the
  document. A \<^verbatim>\<open>range\<close> loop visits the keys that the map has when the loop
  starts, in the order of the list; Go leaves the order open, and also whether an entry
  created during the loop is visited.

  The inner loop of \<^verbatim>\<open>sanitizePaths\<close> over the keys of one path item.
\<close>

fun sanitizeItem :: "stdlib \<Rightarrow> string list \<Rightarrow> (string \<times> json) list \<Rightarrow> (string \<times> json) list" where
  "sanitizeItem L [] m = m"
| "sanitizeItem L (k # ks) m =
     (let lk = strings_ToLower L k in
      if lk \<in> set validVerbs
      then (if lk \<noteq> k
            then sanitizeItem L ks
                   (AList.delete k
                      (AList.update lk (case map_of m k of Some v \<Rightarrow> v | None \<Rightarrow> JNull) m))
            else sanitizeItem L ks m)
      else if k = ''parameters'' then sanitizeItem L ks m
      else sanitizeItem L ks (AList.delete k m))"

definition sanitizePaths :: "stdlib \<Rightarrow> (string \<times> json) list \<Rightarrow> (string \<times> json) list" where
  "sanitizePaths L raw =
     (case map_of raw ''paths'' of
        Some (JObject paths) \<Rightarrow>
          AList.update ''paths''
            (JObject (map (\<lambda>(p, node).
                             (p, case node of
                                   JObject m \<Rightarrow> JObject (sanitizeItem L (map fst m) m)
                                 | _ \<Rightarrow> node))
                          paths))
            raw
      | _ \<Rightarrow> raw)"

text \<open>
  \<^verbatim>\<open>string(k[0])\<close> converts the byte to the string of the rune with that
  value: the byte itself below \<^verbatim>\<open>0x80\<close>, the two bytes of its UTF-8 encoding
  from there on.
\<close>

definition byteString :: "char \<Rightarrow> string" where
  "byteString b =
     (if (of_char b :: nat) < 128 then [b]
      else [char_of (192 + (of_char b :: nat) div 64), char_of (128 + (of_char b :: nat) mod 64)])"

text \<open>
  The loop of \<^verbatim>\<open>sanitizeComponents\<close>. The index expression \<^verbatim>\<open>k[0]\<close>
  panics on the empty key; \<^verbatim>\<open>k[1:]\<close> is in range whenever \<^verbatim>\<open>k[0]\<close>
  is. The value is the one the map holds when the key is visited.
\<close>

fun titleKeys :: "stdlib \<Rightarrow> string list \<Rightarrow> (string \<times> json) list \<Rightarrow> panic + (string \<times> json) list" where
  "titleKeys L [] schemas = Inr schemas"
| "titleKeys L (k # ks) schemas =
     (case k of
        [] \<Rightarrow> Inl IndexOutOfRange
      | k0 # k1 \<Rightarrow>
          (let title = strings_ToUpper L (byteString k0) @ k1 in
           if title \<noteq> k
           then titleKeys L ks
                  (AList.update title (case map_of schemas k of Some v \<Rightarrow> v | None \<Rightarrow> JNull)
                     schemas)
           else titleKeys L ks schemas))"

definition sanitizeComponents :: "stdlib \<Rightarrow> (string \<times> json) list \<Rightarrow> panic + (string \<times> json) list" where
  "sanitizeComponents L raw =
     (case map_of raw ''components'' of
        Some (JObject comps) \<Rightarrow>
          (case map_of comps ''schemas'' of
             Some (JObject schemas) \<Rightarrow>
               (case titleKeys L (map fst schemas) schemas of
                  Inl p \<Rightarrow> Inl p
                | Inr schemas' \<Rightarrow>
                    Inr (AList.update ''components''
                           (JObject (AList.update ''schemas'' (JObject schemas') comps)) raw))
           | _ \<Rightarrow> Inr raw)
      | _ \<Rightarrow> Inr raw)"

text \<open>The keys that the loop of \<^verbatim>\<open>sanitizeComponents\<close> ranges over.\<close>

definition schemaKeys :: "(string \<times> json) list \<Rightarrow> string list" where
  "schemaKeys raw =
     (case map_of raw ''components'' of
        Some (JObject comps) \<Rightarrow>
          (case map_of comps ''schemas'' of
             Some (JObject schemas) \<Rightarrow> map fst schemas
           | _ \<Rightarrow> [])
      | _ \<Rightarrow> [])"

text \<open>
  The closure \<^verbatim>\<open>walk\<close> of \<^verbatim>\<open>injectMissingSchemas\<close>: the names after
  \<^verbatim>\<open>#/components/schemas/\<close> in the \<^verbatim>\<open>$ref\<close> strings of the document.
  The value under a \<^verbatim>\<open>$ref\<close> key is not walked.
\<close>

fun walk :: "json \<Rightarrow> string list" where
  "walk (JObject n) =
     concat (map (\<lambda>kv.
                    if fst kv = ''$ref''
                    then (case snd kv of
                            JString s \<Rightarrow>
                              if HasPrefix s ''#/components/schemas/''
                              then [drop (length ''#/components/schemas/'') s] else []
                          | _ \<Rightarrow> [])
                    else walk (snd kv)) n)"
| "walk (JArray n) = concat (map walk n)"
| "walk _ = []"

text \<open>The last loop of \<^verbatim>\<open>injectMissingSchemas\<close>, over the collected names.\<close>

fun addStubs :: "string list \<Rightarrow> (string \<times> json) list \<Rightarrow> (string \<times> json) list" where
  "addStubs [] schemas = schemas"
| "addStubs (name # names) schemas =
     addStubs names
       (case map_of schemas name of
          Some v \<Rightarrow> schemas
        | None \<Rightarrow> AList.update name (JObject [(''type'', JString ''object'')]) schemas)"

definition injectMissingSchemas :: "(string \<times> json) list \<Rightarrow> (string \<times> json) list" where
  "injectMissingSchemas raw =
     (let refs = walk (JObject raw);
          comps = (case map_of raw ''components'' of Some (JObject c) \<Rightarrow> c | _ \<Rightarrow> []);
          schemas = (case map_of comps ''schemas'' of Some (JObject sc) \<Rightarrow> sc | _ \<Rightarrow> [])
      in AList.update ''components''
           (JObject (AList.update ''schemas'' (JObject (addStubs refs schemas)) comps)) raw)"

section \<open>Extracting and indexing the operations\<close>

definition extractOperations :: "PathItem \<Rightarrow> (string \<times> Operation) list" where
  "extractOperations item =
     (case Get item of Some op \<Rightarrow> [(''GET'', op)] | None \<Rightarrow> [])
     @ (case Post item of Some op \<Rightarrow> [(''POST'', op)] | None \<Rightarrow> [])
     @ (case Put item of Some op \<Rightarrow> [(''PUT'', op)] | None \<Rightarrow> [])
     @ (case Delete item of Some op \<Rightarrow> [(''DELETE'', op)] | None \<Rightarrow> [])
     @ (case Options item of Some op \<Rightarrow> [(''OPTIONS'', op)] | None \<Rightarrow> [])
     @ (case Head item of Some op \<Rightarrow> [(''HEAD'', op)] | None \<Rightarrow> [])
     @ (case Patch item of Some op \<Rightarrow> [(''PATCH'', op)] | None \<Rightarrow> [])
     @ (case Trace item of Some op \<Rightarrow> [(''TRACE'', op)] | None \<Rightarrow> [])
     @ (case Connect item of Some op \<Rightarrow> [(''CONNECT'', op)] | None \<Rightarrow> [])"

definition extractOpEntries :: "T \<Rightarrow> OpEntry list" where
  "extractOpEntries doc =
     concat (map (\<lambda>(tmpl, item).
                    map (\<lambda>(method, op).
                           \<lparr>Method = method, Template = tmpl, OperationID = opOperationID op,
                            Description = (if opSummary op = [] then opDescription op
                                           else opSummary op),
                            Tags = opTags op\<rparr>)
                        (extractOperations item))
                 doc)"

text \<open>
  The id and the document that \<^verbatim>\<open>indexSpecOnDisk\<close> hands to
  \<^verbatim>\<open>idx.Index\<close> for one entry.
\<close>

definition docID :: "string \<Rightarrow> OpEntry \<Rightarrow> string" where
  "docID specName e = specName @ ''|'' @ Method e @ ''|'' @ Template e @ ''|'' @ OperationID e"

definition docMap :: "string \<Rightarrow> OpEntry \<Rightarrow> (string \<times> json) list" where
  "docMap specName e =
     [(''SpecName'', JString specName),
      (''OperationID'', JString (OperationID e)),
      (''Method'', JString (Method e)),
      (''Template'', JString (Template e)),
      (''Description'', JString (Description e)),
      (''Tags'', JArray (map JString (Tags e)))]"

text \<open>
  The loop of \<^verbatim>\<open>indexSpecOnDisk\<close> over the entries; \<open>dir\<close> is the directory of
  the open shard. \<^verbatim>\<open>idx.Index\<close> stores the document under its id, in place of
  an older document with that id.
\<close>

fun indexEntries :: "world \<Rightarrow> string \<Rightarrow> string \<Rightarrow> OpEntry list \<Rightarrow> error option \<times> world" where
  "indexEntries w dir specName [] = (None, w)"
| "indexEntries w dir specName (e # es) =
     (if fails w IndexDoc dir then (Some (IndexDocError dir), w)
      else indexEntries
             (w\<lparr>shards := (shards w)(dir \<mapsto>
                   AList.update (docID specName e) (docMap specName e)
                     (case shards w dir of Some docs \<Rightarrow> docs | None \<Rightarrow> []))\<rparr>)
             dir specName es)"

text \<open>
  \<^verbatim>\<open>indexSpecOnDisk\<close>. The error of \<^verbatim>\<open>json.Unmarshal\<close> is dropped.
  On the nil map the two sanitizers have nothing to range over, and
  \<^verbatim>\<open>injectMissingSchemas\<close> panics at its write
  \<^verbatim>\<open>raw["components"] = comps\<close>. The error of the loader is dropped too, which
  leaves the nil document, and \<^verbatim>\<open>extractOpEntries\<close> then dereferences it.
\<close>

definition indexSpecOnDisk :: "stdlib \<Rightarrow> world \<Rightarrow> string \<Rightarrow> SpecIndex \<Rightarrow> error option \<times> world" where
  "indexSpecOnDisk L w dir spec =
     (case files w (File spec) of
        None \<Rightarrow> (Some (ReadSpecFileError (File spec)), w)
      | Some data \<Rightarrow>
          (case json_UnmarshalObject L data of
             Decoded raw \<Rightarrow>
               (case sanitizeComponents L (sanitizePaths L raw) of
                  Inl p \<Rightarrow> (Some (RuntimePanic p), w)
                | Inr raw' \<Rightarrow>
                    (case openapi3_LoadFromData L (injectMissingSchemas raw') of
                       None \<Rightarrow> (Some (RuntimePanic NilPointerDereference), w)
                     | Some doc \<Rightarrow> indexEntries w dir (SpecName spec) (extractOpEntries doc)))
           | _ \<Rightarrow> (Some (RuntimePanic AssignmentToNilMap), w)))"

section \<open>Building or opening a shard\<close>


text \<open>
  What the engine returns as the stored fields of a document (its
  \<^verbatim>\<open>DocumentMatch.AddFieldValue\<close>): a field with one value as that value, a
  field with several values as the slice of them, a field without values not at all.
\<close>

definition storedValue :: "json \<Rightarrow> json option" where
  "storedValue v =
     (case v of
        JArray [] \<Rightarrow> None
      | JArray [x] \<Rightarrow> Some x
      | _ \<Rightarrow> Some v)"

definition hitOf :: "string \<times> (string \<times> json) list \<Rightarrow> string list \<Rightarrow> DocumentMatch" where
  "hitOf d wanted =
     \<lparr>hitID = fst d,
      hitFields = (\<lambda>name. if name \<in> set wanted
                           then (case map_of (snd d) name of
                                   Some v \<Rightarrow> storedValue v | None \<Rightarrow> None)
                           else None)\<rparr>"

section \<open>The log parser (package \<^verbatim>\<open>parser\<close>)\<close>

text \<open>
  \<^verbatim>\<open>strings.TrimSpace\<close> removes the leading and trailing runes that
  \<^verbatim>\<open>unicode.IsSpace\<close> accepts. Go decodes the string as UTF-8, so a white space
  rune is removed where its encoding is a prefix (suffix) of the string: the six ASCII
  ones, U+0085, U+00A0, U+1680, U+2000 to U+200A, U+2028, U+2029, U+202F, U+205F and
  U+3000.
\<close>

definition spaceRunes :: "string list" where
  "spaceRunes =
     map (\<lambda>b. [b]) [CHR 0x09, CHR 0x0A, CHR 0x0B, CHR 0x0C, CHR 0x0D, CHR 0x20]
     @ [[CHR 0xC2, CHR 0x85], [CHR 0xC2, CHR 0xA0], [CHR 0xE1, CHR 0x9A, CHR 0x80]]
     @ map (\<lambda>b. [CHR 0xE2, CHR 0x80, b])
         [CHR 0x80, CHR 0x81, CHR 0x82, CHR 0x83, CHR 0x84, CHR 0x85, CHR 0x86, CHR 0x87,
          CHR 0x88, CHR 0x89, CHR 0x8A, CHR 0xA8, CHR 0xA9, CHR 0xAF]
     @ [[CHR 0xE2, CHR 0x81, CHR 0x9F], [CHR 0xE3, CHR 0x80, CHR 0x80]]"

text \<open>The number of bytes of the white space rune the string starts (ends) with, if any.\<close>

definition spacePrefix :: "string \<Rightarrow> nat" where
  "spacePrefix s =
     (case List.find (\<lambda>r. HasPrefix s r) spaceRunes of Some r \<Rightarrow> length r | None \<Rightarrow> 0)"

definition spaceSuffix :: "string \<Rightarrow> nat" where
  "spaceSuffix s =
     (case List.find (\<lambda>r. HasSuffix s r) spaceRunes of Some r \<Rightarrow> length r | None \<Rightarrow> 0)"

text \<open>
  The two trimming loops. Each takes the number of runes it may still remove; no string
  has more white space runes than bytes, so \<^verbatim>\<open>TrimSpace\<close> starts them with the
  length of the string.
\<close>

fun trimSpaceLeft :: "nat \<Rightarrow> string \<Rightarrow> string" where
  "trimSpaceLeft 0 s = s"
| "trimSpaceLeft (Suc n) s =
     (if spacePrefix s = 0 then s else trimSpaceLeft n (drop (spacePrefix s) s))"

fun trimSpaceRight :: "nat \<Rightarrow> string \<Rightarrow> string" where
  "trimSpaceRight 0 s = s"
| "trimSpaceRight (Suc n) s =
     (if spaceSuffix s = 0 then s else trimSpaceRight n (take (length s - spaceSuffix s) s))"

definition TrimSpace :: "string \<Rightarrow> string" where
  "TrimSpace s = (let l = trimSpaceLeft (length s) s in trimSpaceRight (length l) l)"

text \<open>
  \<^verbatim>\<open>strings.SplitN(s, sep, 2)\<close> for a separator of one byte: the text before and
  after the first separator, or the string alone when it has none.
\<close>

definition SplitN2 :: "string \<Rightarrow> char \<Rightarrow> string list" where
  "SplitN2 s sep =
     (if sep \<in> set s
      then [takeWhile (\<lambda>c. c \<noteq> sep) s, tl (dropWhile (\<lambda>c. c \<noteq> sep) s)]
      else [s])"

fun Join :: "string list \<Rightarrow> string \<Rightarrow> string" where
  "Join [] sep = []"
| "Join [x] sep = x"
| "Join (x # y # ys) sep = x @ sep @ Join (y # ys) sep"

datatype State = StateNone | StateHeaders | StateBody

text \<open>
  \<^verbatim>\<open>textproto.MIMEHeader\<close> and \<^verbatim>\<open>url.Values\<close> are maps from a key to
  the list of its values; \<^verbatim>\<open>Body\<close> is the byte slice.
\<close>

record ParsedRequest =
  reqMethod :: string
  reqURI :: string
  reqHeaders :: "string \<rightharpoonup> string list"
  reqParams :: "string \<rightharpoonup> string list"
  reqBody :: string
  reqPathParams :: "string \<rightharpoonup> string"

text \<open>
  \<^verbatim>\<open>MIMEHeader.Add\<close>, which puts the key in canonical form itself and appends
  the value to the values of that key.
\<close>

definition Add :: "stdlib \<Rightarrow> (string \<rightharpoonup> string list) \<Rightarrow> string \<Rightarrow> string \<Rightarrow> (string \<rightharpoonup> string list)" where
  "Add L h key v =
     (let k = textproto_CanonicalMIMEHeaderKey L key
      in h(k \<mapsto> (case h k of None \<Rightarrow> [v] | Some vs \<Rightarrow> vs @ [v])))"

text \<open>The local variables of \<^verbatim>\<open>ParseLog\<close> that live across the loop.\<close>

record locals =
  pr :: ParsedRequest
  bodyLines :: "string list"
  state :: State

definition addHeader :: "stdlib \<Rightarrow> locals \<Rightarrow> string \<Rightarrow> locals" where
  "addHeader L v kv =
     (let parts = SplitN2 kv CHR ''=''
      in if length parts = 2
         then v\<lparr>pr := (pr v)\<lparr>reqHeaders :=
                 Add L (reqHeaders (pr v))
                   (textproto_CanonicalMIMEHeaderKey L (TrimSpace (parts ! 0)))
                   (TrimSpace (parts ! 1))\<rparr>\<rparr>
         else v)"

text \<open>
  One turn of the loop after \<^verbatim>\<open>ReadString\<close>: the \<^verbatim>\<open>switch\<close> on the
  trimmed line, its cases in the order of the source.
\<close>

definition parseLine :: "stdlib \<Rightarrow> locals \<Rightarrow> string \<Rightarrow> locals" where
  "parseLine L v line =
     (let trim = TrimSpace line in
      if HasPrefix trim ''Request method:''
      then v\<lparr>pr := (pr v)\<lparr>reqMethod := TrimSpace (TrimPrefix trim ''Request method:'')\<rparr>\<rparr>
      else if HasPrefix trim ''Request URI:''
      then (let uri = TrimSpace (TrimPrefix trim ''Request URI:'');
                pr' = (pr v)\<lparr>reqURI := uri\<rparr>
            in case url_Parse L uri of
                 Some u \<Rightarrow> v\<lparr>pr := pr'\<lparr>reqParams := url_Query L u\<rparr>\<rparr>
               | None \<Rightarrow> v\<lparr>pr := pr'\<rparr>)
      else if HasPrefix trim ''Headers:''
      then (let rest = TrimSpace (TrimPrefix trim ''Headers:'');
                v' = (if rest \<noteq> [] \<and> rest \<noteq> ''<none>'' then addHeader L v rest else v)
            in v'\<lparr>state := StateHeaders\<rparr>)
      else if HasPrefix trim ''Body:''
      then (let c = TrimSpace (TrimPrefix trim ''Body:'');
                v' = (if c \<noteq> [] \<and> c \<noteq> ''<none>''
                      then v\<lparr>bodyLines := bodyLines v @ [c]\<rparr> else v)
            in v'\<lparr>state := StateBody\<rparr>)
      else if state v = StateHeaders
      then (if trim = [] then v\<lparr>state := StateNone\<rparr> else addHeader L v trim)
      else if state v = StateBody
      then (if trim = [] \<or> HasPrefix trim ''Response'' then v\<lparr>state := StateNone\<rparr>
            else v\<lparr>bodyLines := bodyLines v @ [trim]\<rparr>)
      else v)"

text \<open>
  The reader: the bytes it will deliver, and how the stream ends, with
  \<^verbatim>\<open>io.EOF\<close> (\<^const>\<open>None\<close>) or with another error.
\<close>

record Reader =
  rdData :: string
  rdErr :: "string option"

text \<open>
  The loop of \<^verbatim>\<open>ParseLog\<close>. \<^verbatim>\<open>ReadString('\n')\<close> collects bytes up to
  and including the next line feed; at the end of the stream it returns what it has
  collected together with the error. \<open>line\<close> is what the pending call has collected so
  far. An error other than \<^verbatim>\<open>io.EOF\<close> returns at once; at
  \<^verbatim>\<open>io.EOF\<close> the last line is still handled before the loop breaks.
\<close>

fun readLoop :: "stdlib \<Rightarrow> string option \<Rightarrow> string \<Rightarrow> string \<Rightarrow> locals \<Rightarrow> locals \<times> error option" where
  "readLoop L ending [] line v =
     (case ending of
        Some err \<Rightarrow> (v, Some (ReadError err))
      | None \<Rightarrow> (parseLine L v line, None))"
| "readLoop L ending (c # cs) line v =
     (if c = CHR 0x0A then readLoop L ending cs [] (parseLine L v (line @ [c]))
      else readLoop L ending cs (line @ [c]) v)"

definition startLocals :: locals where
  "startLocals =
     \<lparr>pr = \<lparr>reqMethod = [], reqURI = [], reqHeaders = Map.empty, reqParams = Map.empty,
             reqBody = [], reqPathParams = Map.empty\<rparr>,
      bodyLines = [], state = StateNone\<rparr>"

definition ParseLog :: "stdlib \<Rightarrow> Reader \<Rightarrow> ParsedRequest \<times> error option" where
  "ParseLog L r =
     (case readLoop L (rdErr r) (rdData r) [] startLocals of
        (v, Some err) \<Rightarrow> (pr v, Some err)
      | (v, None) \<Rightarrow>
          (let pr' = (pr v)\<lparr>reqBody := Join (bodyLines v) [CHR 0x0A]\<rparr>
           in if reqMethod pr' = [] \<or> reqURI pr' = [] then (pr', Some MissingMethodOrURI)
              else (pr', None)))"

text \<open>
  The strings that the successive calls of \<^verbatim>\<open>ReadString('\n')\<close> return on a
  stream: every line with its line feed, and last what follows the last line feed,
  which is empty when the stream ends in one.
\<close>

fun ReadStrings :: "string \<Rightarrow> string list" where
  "ReadStrings [] = [[]]"
| "ReadStrings (c # cs) =
     (if c = CHR 0x0A then [c] # ReadStrings cs
      else (case ReadStrings cs of
              [] \<Rightarrow> [[c]]
            | l # ls \<Rightarrow> (c # l) # ls))"

section \<open>Example inputs\<close>

text \<open>
  A library for the concrete examples: the parser and decoder tables list what the real
  functions return on the inputs of the examples (the authority of
  \<^verbatim>\<open>http://localhost:8080/api\<close> is \<^verbatim>\<open>localhost:8080\<close>), the case
  mappings are Go's on ASCII, and the digest and the encoder are stand-ins whose values
  no example depends on. No URL of the examples has a query, and their header keys are
  in canonical form already.
\<close>

definition asciiUpper :: "string \<Rightarrow> string" where
  "asciiUpper s =
     map (\<lambda>c. case map_of (zip ''abcdefghijklmnopqrstuvwxyz'' ''ABCDEFGHIJKLMNOPQRSTUVWXYZ'') c of
                 Some C \<Rightarrow> C | None \<Rightarrow> c) s"

definition asciiLower :: "string \<Rightarrow> string" where
  "asciiLower s =
     map (\<lambda>c. case map_of (zip ''ABCDEFGHIJKLMNOPQRSTUVWXYZ'' ''abcdefghijklmnopqrstuvwxyz'') c of
                 Some C \<Rightarrow> C | None \<Rightarrow> c) s"

definition tableLib ::
  "(string \<times> URL) list \<Rightarrow> (string \<times> SpecConfig list) list \<Rightarrow>
   (string \<times> (string \<times> json) list) list \<Rightarrow> ((string \<times> json) list \<times> T) list \<Rightarrow> stdlib" where
  "tableLib urls configs objects docs =
     \<lparr>url_Parse = map_of urls,
      strings_ToUpper = asciiUpper,
      strings_ToLower = asciiLower,
      filepath_Abs = Some,
      sha256_hex = (\<lambda>data. ''sha256:'' @ data),
      json_UnmarshalConfigs = map_of configs,
      json_UnmarshalObject =
        (\<lambda>data. case map_of objects data of Some raw \<Rightarrow> Decoded raw | None \<Rightarrow> DecodeError),
      gob_Encode = (\<lambda>m. concat (map (\<lambda>(k, v). k @ ''='' @ v @ '';'') m)),
      openapi3_LoadFromData = map_of docs,
      url_Query = (\<lambda>u. Map.empty),
      textproto_CanonicalMIMEHeaderKey = (\<lambda>k. k),
      filepath_Join = (\<lambda>dir name. dir @ ''/'' @ name)\<rparr>"

definition exampleURLs :: "(string \<times> URL) list" where
  "exampleURLs =
     [(''http://example.com/api'',
         \<lparr>urlHost = ''example.com'', urlPath = ''/api'', urlRawQuery = []\<rparr>),
      (''http://example.com/v2'',
         \<lparr>urlHost = ''example.com'', urlPath = ''/v2'', urlRawQuery = []\<rparr>),
      (''http://example.com/api/items/5'',
         \<lparr>urlHost = ''example.com'', urlPath = ''/api/items/5'', urlRawQuery = []\<rparr>),
      (''http://localhost:8080/api'',
         \<lparr>urlHost = ''localhost:8080'', urlPath = ''/api'', urlRawQuery = []\<rparr>),
      (''http://localhost:8080/api/items/1'',
         \<lparr>urlHost = ''localhost:8080'', urlPath = ''/api/items/1'', urlRawQuery = []\<rparr>)]"

text \<open>The document \<^verbatim>\<open>{"servers": [{"url": u}]}\<close>.\<close>

definition serversDoc :: "string \<Rightarrow> (string \<times> json) list" where
  "serversDoc u = [(''servers'', JArray [JObject [(''url'', JString u)]])]"

definition localCfg :: SpecConfig where
  "localCfg = \<lparr>DisplayName = ''Local'', Name = ''local'', cfgFile = ''/specs/local.json'', cfgURL = []\<rparr>"

definition firstCfg :: SpecConfig where
  "firstCfg = \<lparr>DisplayName = ''First'', Name = ''first'', cfgFile = ''/specs/first.json'', cfgURL = []\<rparr>"

definition secondCfg :: SpecConfig where
  "secondCfg = \<lparr>DisplayName = ''Second'', Name = ''second'', cfgFile = ''/specs/second.json'', cfgURL = []\<rparr>"

text \<open>
  A spec with one operation, an upper-case verb, a stray key in the path item and a
  lower-case schema name, and the document that sanitizing makes of it.
\<close>

definition getThingJSON :: json where
  "getThingJSON =
     JObject [(''operationId'', JString ''getThing''),
              (''summary'', JString ''Retrieve a thing''),
              (''tags'', JArray [JString ''alpha'', JString ''beta'']),
              (''responses'', JObject [(''200'', JObject [(''description'', JString ''OK'')])])]"

definition infoJSON :: json where
  "infoJSON = JObject [(''title'', JString ''Things API''), (''version'', JString ''1.0.0'')]"

definition thingsDoc :: "(string \<times> json) list" where
  "thingsDoc =
     [(''openapi'', JString ''3.0.0''),
      (''info'', infoJSON),
      (''servers'', JArray [JObject [(''url'', JString ''http://example.com/api'')]]),
      (''paths'', JObject [(''/things/{id}'',
                            JObject [(''GET'', getThingJSON), (''summary'', JString ''Things'')])]),
      (''components'',
         JObject [(''schemas'', JObject [(''thing'', JObject [(''type'', JString ''object'')])])])]"

definition thingsSanitized :: "(string \<times> json) list" where
  "thingsSanitized =
     [(''openapi'', JString ''3.0.0''),
      (''info'', infoJSON),
      (''servers'', JArray [JObject [(''url'', JString ''http://example.com/api'')]]),
      (''paths'', JObject [(''/things/{id}'', JObject [(''get'', getThingJSON)])]),
      (''components'',
         JObject [(''schemas'',
                    JObject [(''thing'', JObject [(''type'', JString ''object'')]),
                             (''Thing'', JObject [(''type'', JString ''object'')])])])]"

definition getThingOp :: Operation where
  "getThingOp = \<lparr>opSummary = ''Retrieve a thing'', opDescription = [],
                 opOperationID = ''getThing'', opTags = [''alpha'', ''beta'']\<rparr>"

definition thingsT :: T where
  "thingsT =
     [(''/things/{id}'',
       \<lparr>Get = Some getThingOp, Post = None, Put = None, Delete = None, Options = None,
        Head = None, Patch = None, Trace = None, Connect = None\<rparr>)]"

definition getThingEntry :: OpEntry where
  "getThingEntry = \<lparr>Method = ''GET'', Template = ''/things/{id}'', OperationID = ''getThing'',
                    Description = ''Retrieve a thing'', Tags = [''alpha'', ''beta'']\<rparr>"

text \<open>A spec whose \<^verbatim>\<open>components.schemas\<close> has the empty string as a key.\<close>

definition badDoc :: "(string \<times> json) list" where
  "badDoc =
     [(''openapi'', JString ''3.0.0''),
      (''info'', infoJSON),
      (''servers'', JArray [JObject [(''url'', JString ''http://example.com/v2'')]]),
      (''components'', JObject [(''schemas'', JObject [([], JObject [])])])]"

text \<open>
  File contents are named rather than spelled out: \<^verbatim>\<open>spec: local\<close> stands for
  the bytes of a spec whose only server is \<^verbatim>\<open>http://localhost:8080/api\<close>, and
  so on, as the decoder table says.
\<close>

definition exampleLib :: stdlib where
  "exampleLib =
     tableLib exampleURLs
       [(''config: local'', [localCfg]),
        (''config: first, second'', [firstCfg, secondCfg])]
       [(''spec: local'', serversDoc ''http://localhost:8080/api''),
        (''spec: first'', serversDoc ''http://example.com/api''),
        (''spec: second'', serversDoc ''http://example.com/v2''),
        (''spec: svc'', thingsDoc),
        (''spec: bad'', badDoc)]
       [(thingsSanitized, thingsT)]"

definition exampleWorld :: world where
  "exampleWorld =
     \<lparr>files = map_of
        [(''/etc/local.json'', ''config: local''),
         (''/etc/both.json'', ''config: first, second''),
         (''/specs/local.json'', ''spec: local''),
         (''/specs/first.json'', ''spec: first''),
         (''/specs/second.json'', ''spec: second''),
         (''/specs/svc.json'', ''spec: svc''),
         (''/specs/bad.json'', ''spec: bad'')],
      shards = Map.empty,
      fails = (\<lambda>c p. False),
      rebuilds = []\<rparr>"

definition localIndex :: SpecIndex where
  "localIndex = \<lparr>SpecName = ''local'', File = ''/specs/local.json'', Host = ''localhost:8080'',
                 BasePath = ''/api'', ContentHash = ''sha256:spec: local''\<rparr>"

definition firstIndex :: SpecIndex where
  "firstIndex = \<lparr>SpecName = ''first'', File = ''/specs/first.json'', Host = ''example.com'',
                 BasePath = ''/api'', ContentHash = ''sha256:spec: first''\<rparr>"

definition secondIndex :: SpecIndex where
  "secondIndex = \<lparr>SpecName = ''second'', File = ''/specs/second.json'', Host = ''example.com'',
                  BasePath = ''/v2'', ContentHash = ''sha256:spec: second''\<rparr>"

definition svcMeta :: SpecIndex where
  "svcMeta = \<lparr>SpecName = ''svc'', File = ''/specs/svc.json'', Host = ''example.com'',
              BasePath = ''/api'', ContentHash = ''sha256:spec: svc''\<rparr>"

text \<open>The stream of the given lines, each ended by a line feed.\<close>

definition logOf :: "string list \<Rightarrow> string" where
  "logOf ls = concat (map (\<lambda>l. l @ [CHR 0x0A]) ls)"

text \<open>A captured log with a method, a URI, one header and a body of two lines.\<close>

definition postLog :: string where
  "postLog =
     logOf [''Request method: POST'', ''Request URI: http://example.com/api'',
            ''Headers:    Accept=text/plain'', [], ''Body:'', ''  {'', ''  }'']"


definition badMeta :: SpecIndex where
  "badMeta = \<lparr>SpecName = ''bad'', File = ''/specs/bad.json'', Host = ''example.com'',
              BasePath = ''/v2'', ContentHash = ''sha256:spec: bad''\<rparr>"

text \<open>An index that answers every request with the one document of the given id.\<close>

definition oneHitIndex :: "string \<Rightarrow> Index" where
  "oneHitIndex ident =
     (\<lambda>q size from wanted. Some ([\<lparr>hitID = ident, hitFields = Map.empty\<rparr>], 1))"

text \<open>
  An index over the given documents that answers every request with all of them, each
  with the stored fields that were asked for.
\<close>

definition allDocsIndex :: "(string \<times> (string \<times> json) list) list \<Rightarrow> Index" where
  "allDocsIndex docs = (\<lambda>q size from wanted. Some (map (\<lambda>d. hitOf d wanted) docs, length docs))"

section \<open>Properties of template matching\<close>

lemma matchSegments_iff:
  "length ts = length ps \<Longrightarrow>
   matchSegments ts ps = (\<forall>i<length ts. braceDelimited (ts ! i) \<or> ts ! i = ps ! i)"
proof (induction ts ps rule: list_induct2)
  case Nil
  show ?case by simp
next
  case (Cons t ts p ps)
  show ?case
    by (simp add: Cons.IH All_less_Suc2)
qed

text \<open>
  C4. Whenever \<^verbatim>\<open>matchTemplate(T, P)\<close> is true, the template and the path,
  trimmed of leading and trailing slashes and split on \<^verbatim>\<open>/\<close>, have equally many
  segments, and every segment of the template that is not brace-delimited equals the
  segment of the path at the same position.
\<close>

theorem matchTemplate_sound:
  assumes "matchTemplate T P"
  shows "length (templateSegments T) = length (templateSegments P) \<and>
         (\<forall>i<length (templateSegments T).
            \<not> braceDelimited (templateSegments T ! i) \<longrightarrow>
            templateSegments T ! i = templateSegments P ! i)"
proof -
  from assms have len: "length (templateSegments T) = length (templateSegments P)"
    by (simp add: matchTemplate_def Let_def split: if_splits)
  with assms have "matchSegments (templateSegments T) (templateSegments P)"
    by (simp add: matchTemplate_def Let_def)
  with len show ?thesis
    by (auto simp: matchSegments_iff)
qed

theorem matchTemplate_sound_witness:
  "matchTemplate ''/items/{id}'' ''/items/123/'' \<and>
   templateSegments ''/items/{id}'' = [''items'', ''{id}''] \<and>
   templateSegments ''/items/123/'' = [''items'', ''123''] \<and>
   \<not> braceDelimited (templateSegments ''/items/{id}'' ! 0) \<and>
   length (templateSegments ''/items/{id}'') = length (templateSegments ''/items/123/'') \<and>
   templateSegments ''/items/{id}'' ! 0 = templateSegments ''/items/123/'' ! 0"
proof -
  have m: "matchTemplate ''/items/{id}'' ''/items/123/''"
    by (simp add: matchTemplate_def templateSegments_def Trim_def TrimLeft_def
        TrimRight_def braceDelimited_def HasPrefix_def HasSuffix_def)
  have t: "templateSegments ''/items/{id}'' = [''items'', ''{id}'']"
    by (simp add: templateSegments_def Trim_def TrimLeft_def TrimRight_def)
  have p: "templateSegments ''/items/123/'' = [''items'', ''123'']"
    by (simp add: templateSegments_def Trim_def TrimLeft_def TrimRight_def)
  have b: "\<not> braceDelimited (templateSegments ''/items/{id}'' ! 0)"
    by (simp add: t braceDelimited_def HasPrefix_def)
  from matchTemplate_sound [OF m]
  have len: "length (templateSegments ''/items/{id}'') = length (templateSegments ''/items/123/'')"
    and lit: "\<forall>i<length (templateSegments ''/items/{id}'').
                \<not> braceDelimited (templateSegments ''/items/{id}'' ! i) \<longrightarrow>
                templateSegments ''/items/{id}'' ! i = templateSegments ''/items/123/'' ! i"
    by blast+
  have pos: "0 < length (templateSegments ''/items/{id}'')"
    by (simp add: t)
  from lit pos b
  have "templateSegments ''/items/{id}'' ! 0 = templateSegments ''/items/123/'' ! 0"
    by blast
  with m t p b len show ?thesis
    by blast
qed

text \<open>
  C5, as the code has it. The claim that a brace-delimited template segment matches no
  empty path segment fails: the loop skips such a segment without looking at the path,
  so the empty segment between the two slashes of \<^verbatim>\<open>/a//b\<close> is matched by
  \<^verbatim>\<open>{id}\<close>.
\<close>

theorem brace_segment_matches_empty:
  "matchTemplate ''/a/{id}/b'' ''/a//b'' \<and>
   templateSegments ''/a/{id}/b'' = [''a'', ''{id}'', ''b''] \<and>
   templateSegments ''/a//b'' = [''a'', [], ''b''] \<and>
   braceDelimited ''{id}''"
  by (simp add: matchTemplate_def templateSegments_def Trim_def TrimLeft_def
      TrimRight_def braceDelimited_def HasPrefix_def HasSuffix_def)

text \<open>
  C5, amended. A brace-delimited template segment matches every path segment at its
  position, the empty one included: \<^verbatim>\<open>matchTemplate(T, P)\<close> is true exactly
  when both have equally many segments and every template segment is brace-delimited
  or equal to the path segment at its position.
\<close>

theorem matchTemplate_iff:
  "matchTemplate T P \<longleftrightarrow>
     length (templateSegments T) = length (templateSegments P) \<and>
     (\<forall>i<length (templateSegments T).
        braceDelimited (templateSegments T ! i) \<or>
        templateSegments T ! i = templateSegments P ! i)"
proof (cases "length (templateSegments T) = length (templateSegments P)")
  case True
  then show ?thesis
    by (simp add: matchTemplate_def Let_def matchSegments_iff)
next
  case False
  then show ?thesis
    by (simp add: matchTemplate_def Let_def)
qed

theorem matchTemplate_iff_witness:
  "matchTemplate ''{id}'' [] \<and> templateSegments ''{id}'' = [''{id}''] \<and>
   templateSegments [] = [[]] \<and> braceDelimited ''{id}''"
proof -
  have t: "templateSegments ''{id}'' = [''{id}'']"
    by (simp add: templateSegments_def Trim_def TrimLeft_def TrimRight_def)
  have p: "templateSegments [] = [[]]"
    by (simp add: templateSegments_def Trim_def TrimLeft_def TrimRight_def)
  have b: "braceDelimited ''{id}''"
    by (simp add: braceDelimited_def HasPrefix_def HasSuffix_def)
  have "matchTemplate ''{id}'' []"
    unfolding matchTemplate_iff [of "''{id}''" "[]"] by (simp add: t p b)
  with t p b show ?thesis
    by blast
qed

section \<open>Evaluating the examples\<close>

lemmas string_defs = HasPrefix_def HasSuffix_def TrimPrefix_def TrimLeft_def TrimRight_def
  Trim_def templateSegments_def braceDelimited_def

lemmas example_defs = exampleLib_def tableLib_def exampleURLs_def exampleWorld_def
  serversDoc_def oneHitIndex_def asciiUpper_def asciiLower_def

lemma load_local: "loadSpec exampleLib exampleWorld localCfg = Inr localIndex"
  by (simp add: loadSpec_def firstServerInfo_def example_defs string_defs localCfg_def
      localIndex_def)

lemma load_first: "loadSpec exampleLib exampleWorld firstCfg = Inr firstIndex"
  by (simp add: loadSpec_def firstServerInfo_def example_defs string_defs firstCfg_def
      firstIndex_def)

lemma load_second: "loadSpec exampleLib exampleWorld secondCfg = Inr secondIndex"
  by (simp add: loadSpec_def firstServerInfo_def example_defs string_defs secondCfg_def
      secondIndex_def)

lemma local_file: "files exampleWorld ''/etc/local.json'' = Some ''config: local''"
  by (simp add: exampleWorld_def)

lemma local_cfgs: "json_UnmarshalConfigs exampleLib ''config: local'' = Some [localCfg]"
  by (simp add: exampleLib_def tableLib_def)

lemma both_file: "files exampleWorld ''/etc/both.json'' = Some ''config: first, second''"
  by (simp add: exampleWorld_def)

lemma both_cfgs:
  "json_UnmarshalConfigs exampleLib ''config: first, second'' = Some [firstCfg, secondCfg]"
  by (simp add: exampleLib_def tableLib_def)

section \<open>The registry key and the resolver's lookup\<close>

text \<open>
  C1, evaluated on the code. The loader registers a spec under \<^verbatim>\<open>u.Host\<close>, which
  keeps the port, and the resolver looks up \<^verbatim>\<open>u.Hostname()\<close>, which drops it. A
  spec whose first server is \<^verbatim>\<open>http://localhost:8080/api\<close> is registered under
  \<^verbatim>\<open>localhost:8080\<close>; resolving a URL on that very server looks up
  \<^verbatim>\<open>localhost\<close>, finds nothing and fails with the unknown-host error.
\<close>

theorem registry_key_keeps_port:
  "firstServerInfo exampleLib (serversDoc ''http://localhost:8080/api'')
     = Inr (''localhost:8080'', ''/api'') \<and>
   url_Parse exampleLib ''http://localhost:8080/api/items/1''
     = Some \<lparr>urlHost = ''localhost:8080'', urlPath = ''/api/items/1'', urlRawQuery = []\<rparr> \<and>
   Hostname \<lparr>urlHost = ''localhost:8080'', urlPath = ''/api/items/1'', urlRawQuery = []\<rparr>
     = ''localhost'' \<and>
   fst (LoadConfigAndIndex exampleLib exampleWorld ''/etc/local.json'' ''/cache/bleve'')
     = Inr [''localhost:8080'' \<mapsto> localIndex] \<and>
   FindOperation exampleLib (oneHitIndex ''local|GET|/items/{id}|getItem'')
       [''localhost:8080'' \<mapsto> localIndex] ''GET'' ''http://localhost:8080/api/items/1''
     = Inl (NoSpecForHost ''localhost'')"
proof -
  have fsi: "firstServerInfo exampleLib (serversDoc ''http://localhost:8080/api'')
      = Inr (''localhost:8080'', ''/api'')"
    by (simp add: firstServerInfo_def example_defs string_defs)
  have reg: "fst (LoadConfigAndIndex exampleLib exampleWorld ''/etc/local.json'' ''/cache/bleve'')
      = Inr [''localhost:8080'' \<mapsto> localIndex]"
    by (simp add: LoadConfigAndIndex_def local_file local_cfgs load_local)
       (simp add: localIndex_def)
  have parse: "url_Parse exampleLib ''http://localhost:8080/api/items/1''
     = Some \<lparr>urlHost = ''localhost:8080'', urlPath = ''/api/items/1'', urlRawQuery = []\<rparr>"
    by (simp add: example_defs)
  have hn: "Hostname \<lparr>urlHost = ''localhost:8080'', urlPath = ''/api/items/1'', urlRawQuery = []\<rparr>
      = ''localhost''"
    by (simp add: Hostname_def splitHostPort_def validOptionalPort_def isDigit_def string_defs)
  have fo: "FindOperation exampleLib (oneHitIndex ''local|GET|/items/{id}|getItem'')
       [''localhost:8080'' \<mapsto> localIndex] ''GET'' ''http://localhost:8080/api/items/1''
     = Inl (NoSpecForHost ''localhost'')"
    by (simp add: FindOperation_def parse hn)
  show ?thesis
    by (simp add: fsi parse hn reg fo)
qed

section \<open>Specs that share a host\<close>

lemma find_append_last:
  "List.find P (xs @ [x]) =
     (case List.find P xs of Some y \<Rightarrow> Some y | None \<Rightarrow> if P x then Some x else None)"
  by (induction xs) auto

lemma loadSpecs_all_load:
  "list_all (\<lambda>cfg. \<not> isl (loadSpec L w cfg)) cfgs \<Longrightarrow>
   \<exists>upd. loadSpecs L w cfgs reg0 upd0 =
     Inr (\<lambda>h. case List.find (\<lambda>si. Host si = h)
                      (rev (map (\<lambda>cfg. projr (loadSpec L w cfg)) cfgs)) of
                 Some si \<Rightarrow> Some si | None \<Rightarrow> reg0 h, upd)"
proof (induction cfgs arbitrary: reg0 upd0)
  case Nil
  show ?case by simp
next
  case (Cons cfg cfgs)
  from Cons.prems obtain si where si: "loadSpec L w cfg = Inr si"
    by (cases "loadSpec L w cfg") auto
  from Cons.prems have rest: "list_all (\<lambda>cfg. \<not> isl (loadSpec L w cfg)) cfgs"
    by simp
  from Cons.IH [OF rest, of "reg0(Host si \<mapsto> si)" "AList.update (Name cfg) (ContentHash si) upd0"]
  obtain upd where
    "loadSpecs L w cfgs (reg0(Host si \<mapsto> si)) (AList.update (Name cfg) (ContentHash si) upd0) =
       Inr (\<lambda>h. case List.find (\<lambda>si. Host si = h)
                        (rev (map (\<lambda>cfg. projr (loadSpec L w cfg)) cfgs)) of
                   Some si \<Rightarrow> Some si | None \<Rightarrow> (reg0(Host si \<mapsto> si)) h, upd)"
    by blast
  then show ?case
    by (auto simp: si find_append_last fun_eq_iff split: option.splits)
qed

lemma loadSpecs_some_fails:
  "\<not> list_all (\<lambda>cfg. \<not> isl (loadSpec L w cfg)) cfgs \<Longrightarrow> isl (loadSpecs L w cfgs reg0 upd0)"
  by (induction cfgs arbitrary: reg0 upd0) (auto split: sum.splits)

text \<open>
  C2, as the code has it. The loop stores each spec with \<^verbatim>\<open>registry[host] = ...\<close>
  and never asks whether the key is taken. Two specs that both declare the host
  \<^verbatim>\<open>example.com\<close> load without an error, and the registry keeps the second only.
\<close>

theorem same_host_load_succeeds:
  "loadSpec exampleLib exampleWorld firstCfg = Inr firstIndex \<and>
   loadSpec exampleLib exampleWorld secondCfg = Inr secondIndex \<and>
   Host firstIndex = ''example.com'' \<and> Host secondIndex = ''example.com'' \<and>
   fst (LoadConfigAndIndex exampleLib exampleWorld ''/etc/both.json'' ''/cache/bleve'')
     = Inr [''example.com'' \<mapsto> secondIndex]"
  by (simp add: LoadConfigAndIndex_def both_file both_cfgs load_first load_second)
     (simp add: firstIndex_def secondIndex_def)

text \<open>
  C2, amended. Once the configuration is read and decoded, \<^verbatim>\<open>LoadConfigAndIndex\<close>
  fails exactly when some spec fails to load on its own (file, JSON or first server); a
  host declared twice is no error. When it succeeds, the registry maps every host to the
  last spec in configuration order that declares it, and to nothing when no spec does.
\<close>

theorem LoadConfigAndIndex_last_host_wins:
  assumes "files w configPath = Some data" and "json_UnmarshalConfigs L data = Some cfgs"
  shows "if list_all (\<lambda>cfg. \<not> isl (loadSpec L w cfg)) cfgs
         then fst (LoadConfigAndIndex L w configPath cachePath) =
                Inr (\<lambda>h. List.find (\<lambda>si. Host si = h)
                            (rev (map (\<lambda>cfg. projr (loadSpec L w cfg)) cfgs)))
         else isl (fst (LoadConfigAndIndex L w configPath cachePath))"
proof (cases "list_all (\<lambda>cfg. \<not> isl (loadSpec L w cfg)) cfgs")
  case True
  from loadSpecs_all_load [OF True, of Map.empty "[]"]
  obtain upd where "loadSpecs L w cfgs Map.empty [] =
     Inr (\<lambda>h. case List.find (\<lambda>si. Host si = h)
                      (rev (map (\<lambda>cfg. projr (loadSpec L w cfg)) cfgs)) of
                 Some si \<Rightarrow> Some si | None \<Rightarrow> None, upd)"
    by blast
  moreover have "(\<lambda>h. case List.find (\<lambda>si. Host si = h)
                         (rev (map (\<lambda>cfg. projr (loadSpec L w cfg)) cfgs)) of
                    Some si \<Rightarrow> Some si | None \<Rightarrow> None)
       = (\<lambda>h. List.find (\<lambda>si. Host si = h) (rev (map (\<lambda>cfg. projr (loadSpec L w cfg)) cfgs)))"
    by (auto simp: fun_eq_iff split: option.splits)
  ultimately show ?thesis
    using assms True by (simp add: LoadConfigAndIndex_def)
next
  case False
  from loadSpecs_some_fails [OF False, of Map.empty "[]"]
  obtain err where "loadSpecs L w cfgs Map.empty [] = Inl err"
    by (cases "loadSpecs L w cfgs Map.empty []") auto
  then show ?thesis
    using assms False by (simp add: LoadConfigAndIndex_def)
qed

theorem LoadConfigAndIndex_last_host_wins_witness:
  "fst (LoadConfigAndIndex exampleLib exampleWorld ''/etc/both.json'' ''/cache/bleve'')
     = Inr (\<lambda>h. List.find (\<lambda>si. Host si = h) [secondIndex, firstIndex]) \<and>
   List.find (\<lambda>si. Host si = ''example.com'') [secondIndex, firstIndex] = Some secondIndex"
  using LoadConfigAndIndex_last_host_wins [OF both_file both_cfgs, of "''/cache/bleve''"]
  by (simp add: load_first load_second) (simp add: secondIndex_def)

section \<open>A matched template with a different segment count\<close>

lemma firstCandidate_append:
  "firstCandidate (pre @ rs) meta want full rel =
     (case firstCandidate pre meta want full rel of
        Some x \<Rightarrow> Some x
      | None \<Rightarrow> firstCandidate rs meta want full rel)"
  by (induction pre) auto

text \<open>
  C9. Let the URL parse, its host be registered, and the search for the relative path
  return a list in which \<open>r\<close> is the first candidate of the resolved spec and the wanted
  method whose template matches the full or the relative path. If the template of \<open>r\<close>
  and the full path stripped of the base path and the leading slash have different
  segment counts, then \<^verbatim>\<open>extractPathParams\<close> returns the empty map and
  \<^verbatim>\<open>FindOperation\<close> returns the spec name and operation id of \<open>r\<close> with that
  empty map, not an error.
\<close>

theorem FindOperation_count_mismatch:
  assumes parse: "url_Parse L rawURL = Some u"
    and known: "reg (Hostname u) = Some meta"
    and rel: "rel = (let rel0 = TrimPrefix (urlPath u) (TrimRight (BasePath meta) ''/'')
                     in if \<not> HasPrefix rel0 ''/'' then ''/'' @ rel0 else rel0)"
    and search: "SearchBleve idx [] [] rel 100 0 = Inr (pre @ r # post, n)"
    and skipped: "firstCandidate pre meta (strings_ToUpper L method) (urlPath u) rel = None"
    and spec: "resSpecName r = SpecName meta"
    and meth: "resMethod r = strings_ToUpper L method"
    and matched: "matchTemplate (resTemplate r) (urlPath u) \<or> matchTemplate (resTemplate r) rel"
    and mismatch:
      "length (Split (Trim (resTemplate r) ''/'') CHR ''/'') \<noteq>
       length (Split (Trim (TrimPrefix (TrimPrefix (urlPath u) (BasePath meta)) ''/'') ''/'')
                 CHR ''/'')"
  shows "extractPathParams (BasePath meta) (resTemplate r) (urlPath u) = Map.empty \<and>
         FindOperation L idx reg method rawURL =
           Inr (resSpecName r, resOperationID r, Map.empty)"
proof -
  have params: "extractPathParams (BasePath meta) (resTemplate r) (urlPath u) = Map.empty"
    using mismatch by (simp add: extractPathParams_def Let_def)
  have cand: "firstCandidate (pre @ r # post) meta (strings_ToUpper L method) (urlPath u) rel =
        Some (resSpecName r, resOperationID r, Map.empty)"
    using skipped spec meth matched params by (simp add: firstCandidate_append)
  show ?thesis
    using parse known search cand params rel
    by (simp add: FindOperation_def Let_def)
qed

theorem FindOperation_count_mismatch_witness:
  "FindOperation exampleLib (oneHitIndex ''svc|GET|/api/items/{id}|getItem'')
      [''example.com'' \<mapsto> svcMeta] ''get'' ''http://example.com/api/items/5''
     = Inr (''svc'', ''getItem'', Map.empty) \<and>
   matchTemplate ''/api/items/{id}'' ''/api/items/5'' \<and>
   templateSegments ''/api/items/{id}'' = [''api'', ''items'', ''{id}''] \<and>
   templateSegments (TrimPrefix (TrimPrefix ''/api/items/5'' ''/api'') ''/'') = [''items'', ''5'']"
proof -
  let ?u = "\<lparr>urlHost = ''example.com'', urlPath = ''/api/items/5'', urlRawQuery = []\<rparr>"
  let ?r = "\<lparr>resSpecName = ''svc'', resOperationID = ''getItem'', resMethod = ''GET'',
             resTemplate = ''/api/items/{id}'', resDescription = [], resTags = []\<rparr>"
  have parse: "url_Parse exampleLib ''http://example.com/api/items/5'' = Some ?u"
    by (simp add: example_defs)
  have known: "[''example.com'' \<mapsto> svcMeta] (Hostname ?u) = Some svcMeta"
    by (simp add: Hostname_def splitHostPort_def string_defs)
  have rel: "''/items/5'' =
      (let rel0 = TrimPrefix (urlPath ?u) (TrimRight (BasePath svcMeta) ''/'')
       in if \<not> HasPrefix rel0 ''/'' then ''/'' @ rel0 else rel0)"
    by (simp add: svcMeta_def string_defs)
  have search:
    "SearchBleve (oneHitIndex ''svc|GET|/api/items/{id}|getItem'') [] [] ''/items/5'' 100 0
      = Inr ([] @ ?r # [], 1)"
    by (simp add: SearchBleve_def oneHitIndex_def hitResult_def)
  have skipped:
    "firstCandidate [] svcMeta (strings_ToUpper exampleLib ''get'') (urlPath ?u) ''/items/5'' = None"
    by simp
  have spec: "resSpecName ?r = SpecName svcMeta"
    by (simp add: svcMeta_def)
  have meth: "resMethod ?r = strings_ToUpper exampleLib ''get''"
    by (simp add: example_defs)
  have m: "matchTemplate ''/api/items/{id}'' ''/api/items/5''"
    by (simp add: matchTemplate_def string_defs)
  then have matched:
    "matchTemplate (resTemplate ?r) (urlPath ?u) \<or> matchTemplate (resTemplate ?r) ''/items/5''"
    by simp
  have t: "templateSegments ''/api/items/{id}'' = [''api'', ''items'', ''{id}'']"
    by (simp add: string_defs)
  have p: "templateSegments (TrimPrefix (TrimPrefix ''/api/items/5'' ''/api'') ''/'')
      = [''items'', ''5'']"
    by (simp add: string_defs)
  have mismatch: "length (Split (Trim (resTemplate ?r) ''/'') CHR ''/'') \<noteq>
       length (Split (Trim (TrimPrefix (TrimPrefix (urlPath ?u) (BasePath svcMeta)) ''/'') ''/'')
                 CHR ''/'')"
    using t p by (simp add: templateSegments_def svcMeta_def)
  from FindOperation_count_mismatch
         [where reg = "[''example.com'' \<mapsto> svcMeta]" and pre = "[]" and post = "[]",
          OF parse known rel search skipped spec meth matched mismatch]
  have "FindOperation exampleLib (oneHitIndex ''svc|GET|/api/items/{id}|getItem'')
      [''example.com'' \<mapsto> svcMeta] ''get'' ''http://example.com/api/items/5''
     = Inr (''svc'', ''getItem'', Map.empty)"
    by simp
  with m t p show ?thesis
    by blast
qed

section \<open>The log parser\<close>

lemmas trim_defs = TrimSpace_def spacePrefix_def spaceSuffix_def spaceRunes_def HasPrefix_def
  HasSuffix_def TrimPrefix_def

text \<open>
  The bound given to the two trimming loops is enough: when they stop, no white space
  rune is left at the start (at the end).
\<close>

lemma spacePrefix_empty: "spacePrefix [] = 0"
  by (simp add: spacePrefix_def spaceRunes_def HasPrefix_def)

lemma spaceSuffix_empty: "spaceSuffix [] = 0"
  by (simp add: spaceSuffix_def spaceRunes_def HasSuffix_def)

lemma trimSpaceLeft_done: "length s \<le> n \<Longrightarrow> spacePrefix (trimSpaceLeft n s) = 0"
proof (induction n arbitrary: s)
  case 0
  then show ?case by (simp add: spacePrefix_empty)
next
  case (Suc n)
  show ?case
  proof (cases "spacePrefix s = 0")
    case True
    then show ?thesis by simp
  next
    case False
    with Suc.prems have "length (drop (spacePrefix s) s) \<le> n"
      by simp
    from Suc.IH [OF this] False show ?thesis by simp
  qed
qed

lemma trimSpaceRight_done: "length s \<le> n \<Longrightarrow> spaceSuffix (trimSpaceRight n s) = 0"
proof (induction n arbitrary: s)
  case 0
  then show ?case by (simp add: spaceSuffix_empty)
next
  case (Suc n)
  show ?case
  proof (cases "spaceSuffix s = 0")
    case True
    then show ?thesis by simp
  next
    case False
    with Suc.prems have "length (take (length s - spaceSuffix s) s) \<le> n"
      by simp
    from Suc.IH [OF this] False show ?thesis by simp
  qed
qed

lemma TrimSpace_done:
  "spacePrefix (trimSpaceLeft (length s) s) = 0 \<and> spaceSuffix (TrimSpace s) = 0"
  by (simp add: TrimSpace_def Let_def trimSpaceLeft_done trimSpaceRight_done)

lemma ReadStrings_nonempty: "ReadStrings input \<noteq> []"
  by (induction input) (auto split: list.splits)

text \<open>
  On a stream that ends with \<^verbatim>\<open>io.EOF\<close> the loop handles every string that
  \<^verbatim>\<open>ReadString\<close> returns, the last one included, and leaves without an error.
\<close>

lemma readLoop_lines:
  "readLoop L None input line v =
     (foldl (parseLine L) v ((line @ hd (ReadStrings input)) # tl (ReadStrings input)), None)"
proof (induction input arbitrary: line v)
  case Nil
  show ?case by simp
next
  case (Cons c cs)
  show ?case
  proof (cases "c = CHR 0x0A")
    case True
    then show ?thesis
      using ReadStrings_nonempty [of cs] by (simp add: Cons.IH)
  next
    case False
    then show ?thesis
      using ReadStrings_nonempty [of cs] by (cases "ReadStrings cs") (simp_all add: Cons.IH)
  qed
qed

lemma readLoop_all_lines:
  "readLoop L None input [] v = (foldl (parseLine L) v (ReadStrings input), None)"
  using ReadStrings_nonempty [of input] by (simp add: readLoop_lines del: foldl_Cons)

lemma readLoop_read_error:
  "snd (readLoop L (Some err) input line v) = Some (ReadError err)"
  by (induction input arbitrary: line v) auto

lemma parse_method_line:
  "parseLine exampleLib startLocals ''Request method: GET''
     = startLocals\<lparr>pr := (pr startLocals)\<lparr>reqMethod := ''GET''\<rparr>\<rparr>"
  by (simp add: parseLine_def trim_defs)

text \<open>A whole log, parsed: the fields, the header, the joined body and no error.\<close>

lemma ParseLog_postLog:
  "reqMethod (fst (ParseLog exampleLib \<lparr>rdData = postLog, rdErr = None\<rparr>)) = ''POST'' \<and>
   reqURI (fst (ParseLog exampleLib \<lparr>rdData = postLog, rdErr = None\<rparr>))
     = ''http://example.com/api'' \<and>
   reqHeaders (fst (ParseLog exampleLib \<lparr>rdData = postLog, rdErr = None\<rparr>)) ''Accept''
     = Some [''text/plain''] \<and>
   reqBody (fst (ParseLog exampleLib \<lparr>rdData = postLog, rdErr = None\<rparr>))
     = [CHR ''{'', CHR 0x0A, CHR ''}''] \<and>
   snd (ParseLog exampleLib \<lparr>rdData = postLog, rdErr = None\<rparr>) = None"
  by code_simp

text \<open>
  C7. For every byte stream, let \<open>v\<close> be the variables of the parser after the switch
  has run on every line of the stream. \<^verbatim>\<open>ParseLog\<close> returns the malformed-log
  error exactly when the method or the URI in \<open>v\<close> is empty; when both are set it
  returns the request, the body joined with line feeds, and no error.
\<close>

theorem ParseLog_malformed_iff:
  assumes "rdErr r = None"
  shows "let v = foldl (parseLine L) startLocals (ReadStrings (rdData r)) in
         (snd (ParseLog L r) = Some MissingMethodOrURI \<longleftrightarrow>
            reqMethod (pr v) = [] \<or> reqURI (pr v) = []) \<and>
         (reqMethod (pr v) \<noteq> [] \<and> reqURI (pr v) \<noteq> [] \<longrightarrow>
            ParseLog L r = ((pr v)\<lparr>reqBody := Join (bodyLines v) [CHR 0x0A]\<rparr>, None))"
  using assms by (simp add: ParseLog_def Let_def readLoop_all_lines)

theorem ParseLog_malformed_iff_witness:
  "snd (ParseLog exampleLib \<lparr>rdData = ''Request method: GET'', rdErr = None\<rparr>)
     = Some MissingMethodOrURI \<and>
   ReadStrings ''Request method: GET'' = [''Request method: GET''] \<and>
   reqURI (pr (foldl (parseLine exampleLib) startLocals [''Request method: GET''])) = []"
proof -
  have rs: "ReadStrings ''Request method: GET'' = [''Request method: GET'']"
    by simp
  have uri: "reqURI (pr (foldl (parseLine exampleLib) startLocals [''Request method: GET''])) = []"
    by (simp add: parse_method_line) (simp add: startLocals_def)
  from ParseLog_malformed_iff [of "\<lparr>rdData = ''Request method: GET'', rdErr = None\<rparr>" exampleLib]
  have "snd (ParseLog exampleLib \<lparr>rdData = ''Request method: GET'', rdErr = None\<rparr>)
      = Some MissingMethodOrURI"
    using uri by (simp add: Let_def rs del: ReadStrings.simps foldl_Cons)
  with rs uri show ?thesis by blast
qed




section \<open>Sanitizing and the empty schema key\<close>

lemma lib_fields:
  "strings_ToLower exampleLib = asciiLower" "strings_ToUpper exampleLib = asciiUpper"
  "filepath_Join exampleLib = (\<lambda>dir name. dir @ ''/'' @ name)"
  "openapi3_LoadFromData exampleLib thingsSanitized = Some thingsT"
  "json_UnmarshalObject exampleLib ''spec: svc'' = Decoded thingsDoc"
  "json_UnmarshalObject exampleLib ''spec: bad'' = Decoded badDoc"
  by (simp_all add: exampleLib_def tableLib_def)

lemma world_fields:
  "files exampleWorld ''/specs/svc.json'' = Some ''spec: svc''"
  "files exampleWorld ''/specs/bad.json'' = Some ''spec: bad''"
  "files exampleWorld ''/cache/svc.hash'' = None"
  "files exampleWorld ''/cache/svc.bleve'' = None"
  "shards exampleWorld = Map.empty" "fails exampleWorld = (\<lambda>c p. False)"
  "rebuilds exampleWorld = []"
  by (simp_all add: exampleWorld_def)

lemma titleKeys_panics_iff:
  "(\<exists>p. titleKeys L ks schemas = Inl p) \<longleftrightarrow> [] \<in> set ks"
  by (induction ks arbitrary: schemas) (auto simp: Let_def split: list.splits)

lemma titleKeys_panic_kind:
  "titleKeys L ks schemas = Inl p \<Longrightarrow> p = IndexOutOfRange"
  by (induction ks arbitrary: schemas) (auto simp: Let_def split: list.splits if_splits)

lemma sanitizeComponents_panics_iff:
  "sanitizeComponents L raw = Inl IndexOutOfRange \<longleftrightarrow> [] \<in> set (schemaKeys raw)"
proof (cases "map_of raw ''components''")
  case None
  then show ?thesis by (simp add: sanitizeComponents_def schemaKeys_def)
next
  case (Some c)
  show ?thesis
  proof (cases c)
    case (JObject comps)
    show ?thesis
    proof (cases "map_of comps ''schemas''")
      case None
      with Some JObject show ?thesis by (simp add: sanitizeComponents_def schemaKeys_def)
    next
      case inner: (Some sc)
      show ?thesis
      proof (cases sc)
        case sch: (JObject schemas)
        have "(titleKeys L (map fst schemas) schemas = Inl IndexOutOfRange)
                \<longleftrightarrow> [] \<in> set (map fst schemas)"
          using titleKeys_panics_iff [of L "map fst schemas" schemas]
            titleKeys_panic_kind [of L "map fst schemas" schemas]
          by blast
        with Some JObject inner sch show ?thesis
          by (auto simp: sanitizeComponents_def schemaKeys_def split: sum.splits
              dest: titleKeys_panic_kind)
      qed (use Some JObject inner in \<open>simp_all add: sanitizeComponents_def schemaKeys_def\<close>)
    qed
  qed (use Some in \<open>simp_all add: sanitizeComponents_def schemaKeys_def\<close>)
qed

lemma sanitizeComponents_cases:
  "sanitizeComponents L raw = Inl IndexOutOfRange \<or> (\<exists>raw'. sanitizeComponents L raw = Inr raw')"
proof (cases "sanitizeComponents L raw")
  case (Inl p)
  then have "p = IndexOutOfRange"
    by (auto simp: sanitizeComponents_def split: option.splits json.splits sum.splits
        dest: titleKeys_panic_kind)
  with Inl show ?thesis by simp
next
  case (Inr r)
  then show ?thesis by simp
qed

text \<open>\<^verbatim>\<open>sanitizePaths\<close> writes under \<^verbatim>\<open>paths\<close> only.\<close>

lemma sanitizePaths_components:
  "map_of (sanitizePaths L raw) ''components'' = map_of raw ''components''"
  by (simp add: sanitizePaths_def update_conv' split: option.splits json.splits)

lemma schemaKeys_sanitizePaths: "schemaKeys (sanitizePaths L raw) = schemaKeys raw"
  by (simp add: schemaKeys_def sanitizePaths_components)

text \<open>
  C10. \<^verbatim>\<open>sanitizeComponents\<close> panics with an index out of range exactly when
  the empty string is a key of \<^verbatim>\<open>components.schemas\<close>; on every document
  whose schema keys are all non-empty it returns. When the file of a spec decodes to a
  document with the empty schema key, indexing that spec panics.
\<close>

theorem sanitizeComponents_total_iff:
  "(sanitizeComponents L raw = Inl IndexOutOfRange \<longleftrightarrow> [] \<in> set (schemaKeys raw)) \<and>
   ([] \<notin> set (schemaKeys raw) \<longrightarrow> (\<exists>raw'. sanitizeComponents L raw = Inr raw')) \<and>
   (files w (File spec) = Some data \<and> json_UnmarshalObject L data = Decoded raw \<and>
    [] \<in> set (schemaKeys raw) \<longrightarrow>
      indexSpecOnDisk L w dir spec = (Some (RuntimePanic IndexOutOfRange), w))"
proof (intro conjI impI)
  show "sanitizeComponents L raw = Inl IndexOutOfRange \<longleftrightarrow> [] \<in> set (schemaKeys raw)"
    by (rule sanitizeComponents_panics_iff)
next
  assume "[] \<notin> set (schemaKeys raw)"
  then show "\<exists>raw'. sanitizeComponents L raw = Inr raw'"
    using sanitizeComponents_cases [of L raw] sanitizeComponents_panics_iff [of L raw] by blast
next
  assume a: "files w (File spec) = Some data \<and> json_UnmarshalObject L data = Decoded raw \<and>
    [] \<in> set (schemaKeys raw)"
  then have "sanitizeComponents L (sanitizePaths L raw) = Inl IndexOutOfRange"
    by (simp add: sanitizeComponents_panics_iff schemaKeys_sanitizePaths)
  with a show "indexSpecOnDisk L w dir spec = (Some (RuntimePanic IndexOutOfRange), w)"
    by (simp add: indexSpecOnDisk_def)
qed

theorem sanitizeComponents_total_iff_witness:
  "schemaKeys badDoc = [[]] \<and>
   sanitizeComponents exampleLib badDoc = Inl IndexOutOfRange \<and>
   indexSpecOnDisk exampleLib exampleWorld ''/cache/bad.bleve'' badMeta
     = (Some (RuntimePanic IndexOutOfRange), exampleWorld) \<and>
   schemaKeys thingsDoc = [''thing''] \<and>
   (\<exists>raw'. sanitizeComponents exampleLib thingsDoc = Inr raw')"
proof -
  have k: "schemaKeys badDoc = [[]]"
    by (simp add: schemaKeys_def badDoc_def)
  have k': "schemaKeys thingsDoc = [''thing'']"
    by (simp add: schemaKeys_def thingsDoc_def)
  have f: "files exampleWorld (File badMeta) = Some ''spec: bad''"
    by (simp add: badMeta_def world_fields)
  note t = sanitizeComponents_total_iff [of exampleLib badDoc exampleWorld badMeta "''spec: bad''"
      "''/cache/bad.bleve''"]
  from t k have a: "sanitizeComponents exampleLib badDoc = Inl IndexOutOfRange"
    by simp
  from t k f have b: "indexSpecOnDisk exampleLib exampleWorld ''/cache/bad.bleve'' badMeta
     = (Some (RuntimePanic IndexOutOfRange), exampleWorld)"
    by (simp add: lib_fields)
  from sanitizeComponents_total_iff [of exampleLib thingsDoc] k'
  have c: "\<exists>raw'. sanitizeComponents exampleLib thingsDoc = Inr raw'"
    by simp
  from k a b k' c show ?thesis by blast
qed

section \<open>From an indexed entry to the search result\<close>

lemma Split_no_sep: "sep \<notin> set s \<Longrightarrow> Split s sep = [s]"
  by (induction s) auto

lemma Split_append: "sep \<notin> set a \<Longrightarrow> Split (a @ sep # b) sep = a # Split b sep"
  by (induction a) auto

lemma Split_docID:
  assumes "CHR ''|'' \<notin> set specName" "CHR ''|'' \<notin> set (Method e)"
    "CHR ''|'' \<notin> set (Template e)" "CHR ''|'' \<notin> set (OperationID e)"
  shows "Split (docID specName e) CHR ''|'' = [specName, Method e, Template e, OperationID e]"
  using assms by (simp add: docID_def Split_append Split_no_sep)

lemma strings_of_JStrings:
  "concat (map ((\<lambda>elem. case elem of JString s \<Rightarrow> [s] | _ \<Rightarrow> []) \<circ> JString) ts) = ts"
  by (induction ts) auto

lemma stored_tags: "ifaceSliceToString (storedValue (JArray (map JString ts))) = ts"
proof (cases ts)
  case Nil
  then show ?thesis by (simp add: storedValue_def)
next
  case (Cons t ts')
  then show ?thesis
    by (cases ts') (simp_all add: storedValue_def strings_of_JStrings)
qed

text \<open>
  What does come back of an entry whose components have no \<^verbatim>\<open>|\<close>: the four
  parts of the id and the tags. The description is the empty string whatever was
  indexed.
\<close>

lemma hitResult_of_entry:
  assumes "CHR ''|'' \<notin> set specName" "CHR ''|'' \<notin> set (Method e)"
    "CHR ''|'' \<notin> set (Template e)" "CHR ''|'' \<notin> set (OperationID e)"
  shows "hitResult (hitOf (docID specName e, docMap specName e)
            [''SpecName'', ''OperationID'', ''Method'', ''Template'', ''Description'', ''Tags''])
         = \<lparr>resSpecName = specName, resOperationID = OperationID e, resMethod = Method e,
            resTemplate = Template e, resDescription = [], resTags = Tags e\<rparr>"
  using Split_docID [OF assms]
  by (simp add: hitResult_def hitOf_def docMap_def stored_tags)

text \<open>
  C3, evaluated on the code. The entry \<^verbatim>\<open>getThing\<close> is indexed with the
  description \<^verbatim>\<open>Retrieve a thing\<close>. \<^verbatim>\<open>SearchBleve\<close> asks the engine for
  the stored field \<^verbatim>\<open>Description\<close> with the others, but builds the result
  from the id and the tags alone and writes the empty string as its description.
\<close>

theorem search_result_description_empty:
  "docID ''svc'' getThingEntry = ''svc|GET|/things/{id}|getThing'' \<and>
   Description getThingEntry = ''Retrieve a thing'' \<and>
   SearchBleve (allDocsIndex [(docID ''svc'' getThingEntry, docMap ''svc'' getThingEntry)])
       [] [] ''getThing'' 10 0
     = Inr ([\<lparr>resSpecName = ''svc'', resOperationID = ''getThing'', resMethod = ''GET'',
              resTemplate = ''/things/{id}'', resDescription = [],
              resTags = [''alpha'', ''beta'']\<rparr>], 1)"
  by (simp add: SearchBleve_def allDocsIndex_def hitResult_def hitOf_def docID_def docMap_def
      getThingEntry_def storedValue_def)

section \<open>The rebuild decision\<close>










end
